theory Spec2Isabelle
  imports Complex_Main
begin

section \<open>The aerodynamic coefficient generator base class\<close>

text \<open>
  Shallow embedding of \<^verbatim>\<open>Astrodynamics/ForceModels/aerodynamicCoefficientGenerator.h\<close>
  (class \<^verbatim>\<open>tudat::AerodynamicCoefficientGenerator\<close>).

  \<^item> A C++ \<^verbatim>\<open>int\<close> is an \<open>int\<close>: the header compares and indexes with its integers and
    never adds or multiplies them, so no wrap-around can occur in the code under study.
    The two functions modelled from the specification compute with unbounded integers,
    as the specification does.
  \<^item> A \<^verbatim>\<open>double\<close> is a value of a type parameter \<open>'d\<close>: the header only stores and loads
    sample values, it never computes with them.
  \<^item> A pointer to a heap array is an \<open>'a list option\<close>: \<open>None\<close> is \<^verbatim>\<open>NULL\<close>, \<open>Some xs\<close> is
    an array holding \<open>xs\<close>, whose length is the allocated size. The rows of
    \<^verbatim>\<open>dataPointsOfIndependentVariables_\<close> are separate arrays: no two row pointers alias.
  \<^item> The inherited \<^verbatim>\<open>AerodynamicCoefficientInterface\<close> subobject, whose declaration is in
    another file, is a field \<open>interface\<close> of a type parameter \<open>'p\<close>.
  \<^item> A data member \<^verbatim>\<open>name_\<close> is the record field \<open>name\<close>: a name may not end in an
    underscore here.
\<close>

subsection \<open>Outcomes of a member function call\<close>

text \<open>
  \<open>UndefinedBehaviour\<close>: the C++ indexes through \<^verbatim>\<open>NULL\<close> or outside the allocated array,
  for which the language defines no result and the header makes no check.
  \<open>PreconditionViolation\<close>: the diagnosed failure of the specification's error taxonomy.
  The header contains no \<^verbatim>\<open>throw\<close>, \<^verbatim>\<open>assert\<close> or guard, so no function translated from
  the header produces it; only the two functions modelled from the specification
  (\<open>variableIndicesToListIndex\<close> and \<open>allocate\<close>) do.
\<close>

datatype failure = UndefinedBehaviour | PreconditionViolation

subsection \<open>Unchecked array indexing\<close>

text \<open>\<^verbatim>\<open>p[ i ]\<close> read: defined only for an allocated array and \<open>0 \<le> i < size\<close>.\<close>

definition readAt :: "'a list option \<Rightarrow> int \<Rightarrow> failure + 'a" where
  "readAt p i =
     (case p of
        None \<Rightarrow> Inl UndefinedBehaviour
      | Some xs \<Rightarrow>
          if 0 \<le> i \<and> i < int (length xs) then Inr (xs ! nat i)
          else Inl UndefinedBehaviour)"

text \<open>\<^verbatim>\<open>p[ i ] = v\<close>: the array after the write, under the same condition.\<close>

definition writeAt :: "'a list option \<Rightarrow> int \<Rightarrow> 'a \<Rightarrow> failure + 'a list option" where
  "writeAt p i v =
     (case p of
        None \<Rightarrow> Inl UndefinedBehaviour
      | Some xs \<Rightarrow>
          if 0 \<le> i \<and> i < int (length xs) then Inr (Some (xs[nat i := v]))
          else Inl UndefinedBehaviour)"

subsection \<open>The object state\<close>

record ('d, 'p) generator =
  interface :: 'p
  vehicleCoefficients :: "'d list option list option"
  numberOfIndependentVariables :: int
  numberOfPointsPerIndependentVariables :: "int list option"
  dataPointsOfIndependentVariables :: "'d list option list option"
  machIndex :: int
  angleOfAttackIndex :: int
  angleOfSideslipIndex :: int
  reynoldsNumberIndex :: int
  numberOfCases :: int

text \<open>
  The default constructor (lines 87--90). Its argument is the state the base class's
  default constructor leaves in the inherited subobject. The literal \<^verbatim>\<open>-0\<close> is the
  integer zero.
\<close>

definition AerodynamicCoefficientGenerator :: "'p \<Rightarrow> ('d, 'p) generator" where
  "AerodynamicCoefficientGenerator base =
     \<lparr> interface = base,
       vehicleCoefficients = None,
       numberOfIndependentVariables = 0,
       numberOfPointsPerIndependentVariables = None,
       dataPointsOfIndependentVariables = None,
       machIndex = - 0,
       angleOfAttackIndex = - 0,
       angleOfSideslipIndex = - 0,
       reynoldsNumberIndex = - 0,
       numberOfCases = 0 \<rparr>"

subsection \<open>Getters\<close>

text \<open>
  The getters are not declared \<^verbatim>\<open>const\<close>, so each is modelled as a function from the
  state to either a failure or the returned value paired with the state after the call.
\<close>

definition getNumberOfIndependentVariables ::
  "('d, 'p) generator \<Rightarrow> failure + int \<times> ('d, 'p) generator" where
  "getNumberOfIndependentVariables g = Inr (numberOfIndependentVariables g, g)"

definition getNumberOfValuesOfIndependentVariable ::
  "('d, 'p) generator \<Rightarrow> int \<Rightarrow> failure + int \<times> ('d, 'p) generator" where
  "getNumberOfValuesOfIndependentVariable g independentVariable =
     (case readAt (numberOfPointsPerIndependentVariables g) independentVariable of
        Inl e \<Rightarrow> Inl e
      | Inr n \<Rightarrow> Inr (n, g))"

definition getNumberOfMachPoints ::
  "('d, 'p) generator \<Rightarrow> failure + int \<times> ('d, 'p) generator" where
  "getNumberOfMachPoints g =
     (case readAt (numberOfPointsPerIndependentVariables g) (machIndex g) of
        Inl e \<Rightarrow> Inl e
      | Inr n \<Rightarrow> Inr (n, g))"

definition getNumberOfAngleOfAttackPoints ::
  "('d, 'p) generator \<Rightarrow> failure + int \<times> ('d, 'p) generator" where
  "getNumberOfAngleOfAttackPoints g =
     (case readAt (numberOfPointsPerIndependentVariables g) (angleOfAttackIndex g) of
        Inl e \<Rightarrow> Inl e
      | Inr n \<Rightarrow> Inr (n, g))"

definition getNumberOfAngleOfSideslipPoints ::
  "('d, 'p) generator \<Rightarrow> failure + int \<times> ('d, 'p) generator" where
  "getNumberOfAngleOfSideslipPoints g =
     (case readAt (numberOfPointsPerIndependentVariables g) (angleOfSideslipIndex g) of
        Inl e \<Rightarrow> Inl e
      | Inr n \<Rightarrow> Inr (n, g))"

definition getNumberOfReynoldsNumberPoints ::
  "('d, 'p) generator \<Rightarrow> failure + int \<times> ('d, 'p) generator" where
  "getNumberOfReynoldsNumberPoints g =
     (case readAt (numberOfPointsPerIndependentVariables g) (reynoldsNumberIndex g) of
        Inl e \<Rightarrow> Inl e
      | Inr n \<Rightarrow> Inr (n, g))"

text \<open>
  \<^verbatim>\<open>dataPointsOfIndependentVariables_[ a ][ index ]\<close> read: two unchecked indexings, the
  first into the array of row pointers, the second into the row.
\<close>

definition readPoint :: "('d, 'p) generator \<Rightarrow> int \<Rightarrow> int \<Rightarrow> failure + 'd" where
  "readPoint g a index =
     (case readAt (dataPointsOfIndependentVariables g) a of
        Inl e \<Rightarrow> Inl e
      | Inr row \<Rightarrow> readAt row index)"

definition getMachPoint ::
  "('d, 'p) generator \<Rightarrow> int \<Rightarrow> failure + 'd \<times> ('d, 'p) generator" where
  "getMachPoint g index =
     (case readPoint g (machIndex g) index of
        Inl e \<Rightarrow> Inl e
      | Inr v \<Rightarrow> Inr (v, g))"

definition getAngleOfAttackPoint ::
  "('d, 'p) generator \<Rightarrow> int \<Rightarrow> failure + 'd \<times> ('d, 'p) generator" where
  "getAngleOfAttackPoint g index =
     (case readPoint g (angleOfAttackIndex g) index of
        Inl e \<Rightarrow> Inl e
      | Inr v \<Rightarrow> Inr (v, g))"

definition getAngleOfSideslipPoint ::
  "('d, 'p) generator \<Rightarrow> int \<Rightarrow> failure + 'd \<times> ('d, 'p) generator" where
  "getAngleOfSideslipPoint g index =
     (case readPoint g (angleOfSideslipIndex g) index of
        Inl e \<Rightarrow> Inl e
      | Inr v \<Rightarrow> Inr (v, g))"

definition getReynoldsNumberPoint ::
  "('d, 'p) generator \<Rightarrow> int \<Rightarrow> failure + 'd \<times> ('d, 'p) generator" where
  "getReynoldsNumberPoint g index =
     (case readPoint g (reynoldsNumberIndex g) index of
        Inl e \<Rightarrow> Inl e
      | Inr v \<Rightarrow> Inr (v, g))"

definition getIndependentVariablePoint ::
  "('d, 'p) generator \<Rightarrow> int \<Rightarrow> int \<Rightarrow> failure + 'd \<times> ('d, 'p) generator" where
  "getIndependentVariablePoint g independentVariable index =
     (case readPoint g independentVariable index of
        Inl e \<Rightarrow> Inl e
      | Inr v \<Rightarrow> Inr (v, g))"

subsection \<open>Setters of sample points\<close>

text \<open>
  \<^verbatim>\<open>dataPointsOfIndependentVariables_[ a ][ index ] = v\<close>: the row pointer is read from
  the outer array, the row is written, and the outer array then holds the written row.
\<close>

definition writePoint ::
  "('d, 'p) generator \<Rightarrow> int \<Rightarrow> int \<Rightarrow> 'd \<Rightarrow> failure + ('d, 'p) generator" where
  "writePoint g a index v =
     (case readAt (dataPointsOfIndependentVariables g) a of
        Inl e \<Rightarrow> Inl e
      | Inr row \<Rightarrow>
          (case writeAt row index v of
             Inl e \<Rightarrow> Inl e
           | Inr row' \<Rightarrow>
               (case writeAt (dataPointsOfIndependentVariables g) a row' of
                  Inl e \<Rightarrow> Inl e
                | Inr rows' \<Rightarrow> Inr (g\<lparr>dataPointsOfIndependentVariables := rows'\<rparr>))))"

text \<open>Line 189--190: the row written is the one at \<^verbatim>\<open>angleOfAttackIndex_\<close>.\<close>

definition setMachPoint ::
  "('d, 'p) generator \<Rightarrow> int \<Rightarrow> 'd \<Rightarrow> failure + ('d, 'p) generator" where
  "setMachPoint g index machPoint = writePoint g (angleOfAttackIndex g) index machPoint"

definition setAngleOfAttackPoint ::
  "('d, 'p) generator \<Rightarrow> int \<Rightarrow> 'd \<Rightarrow> failure + ('d, 'p) generator" where
  "setAngleOfAttackPoint g index angleOfAttackPoint =
     writePoint g (angleOfAttackIndex g) index angleOfAttackPoint"

definition setAngleOfSideslipPoint ::
  "('d, 'p) generator \<Rightarrow> int \<Rightarrow> 'd \<Rightarrow> failure + ('d, 'p) generator" where
  "setAngleOfSideslipPoint g index angleOfSideslipPoint =
     writePoint g (angleOfSideslipIndex g) index angleOfSideslipPoint"

definition setReynoldsNumberPoint ::
  "('d, 'p) generator \<Rightarrow> int \<Rightarrow> 'd \<Rightarrow> failure + ('d, 'p) generator" where
  "setReynoldsNumberPoint g index reynoldsNumberPoint =
     writePoint g (reynoldsNumberIndex g) index reynoldsNumberPoint"

subsection \<open>Sequencing of calls\<close>

text \<open>A call followed by another: a failure of the first call ends the run.\<close>

definition sequence :: "failure + 's \<Rightarrow> ('s \<Rightarrow> failure + 'r) \<Rightarrow> failure + 'r" where
  "sequence r f = (case r of Inl e \<Rightarrow> Inl e | Inr s \<Rightarrow> f s)"

text \<open>The state a getter leaves behind, when it returns.\<close>

definition stateAfter :: "failure + 'a \<times> 's \<Rightarrow> 's option" where
  "stateAfter r = (case r of Inl e \<Rightarrow> None | Inr (v, s) \<Rightarrow> Some s)"

subsection \<open>Sized axes and index ranges\<close>

text \<open>An axis index of the grid: \<open>0 \<le> a < numberOfIndependentVariables_\<close>.\<close>

definition validAxis :: "('d, 'p) generator \<Rightarrow> int \<Rightarrow> bool" where
  "validAxis g a = (0 \<le> a \<and> a < numberOfIndependentVariables g)"

text \<open>
  Axis \<open>a\<close> has its storage allocated: both per-axis arrays exist with one entry per
  independent variable, and the row of axis \<open>a\<close> is an array of as many samples as the
  count recorded for that axis.
\<close>

definition axisAllocated :: "('d, 'p) generator \<Rightarrow> int \<Rightarrow> bool" where
  "axisAllocated g a =
     (case numberOfPointsPerIndependentVariables g of
        None \<Rightarrow> False
      | Some counts \<Rightarrow>
          (case dataPointsOfIndependentVariables g of
             None \<Rightarrow> False
           | Some rows \<Rightarrow>
               validAxis g a \<and>
               int (length counts) = numberOfIndependentVariables g \<and>
               int (length rows) = numberOfIndependentVariables g \<and>
               (case rows ! nat a of
                  None \<Rightarrow> False
                | Some samples \<Rightarrow> int (length samples) = counts ! nat a)))"

text \<open>The sample count recorded for axis \<open>a\<close>.\<close>

definition sampleCount :: "('d, 'p) generator \<Rightarrow> int \<Rightarrow> int" where
  "sampleCount g a =
     (case numberOfPointsPerIndependentVariables g of
        None \<Rightarrow> 0
      | Some counts \<Rightarrow> if 0 \<le> a \<and> a < int (length counts) then counts ! nat a else 0)"

text \<open>
  The accesses \<^verbatim>\<open>dataPointsOfIndependentVariables_[ a ][ i ]\<close> that stay inside the
  allocated arrays.
\<close>

definition pointInRange :: "('d, 'p) generator \<Rightarrow> int \<Rightarrow> int \<Rightarrow> bool" where
  "pointInRange g a i =
     (case dataPointsOfIndependentVariables g of
        None \<Rightarrow> False
      | Some rows \<Rightarrow>
          0 \<le> a \<and> a < int (length rows) \<and>
          (case rows ! nat a of
             None \<Rightarrow> False
           | Some samples \<Rightarrow> 0 \<le> i \<and> i < int (length samples)))"

subsection \<open>The index mapper\<close>

text \<open>
  The per-axis sample counts of a sized grid: the array of counts, when it is allocated
  with one entry per independent variable.
\<close>

definition gridCounts :: "('d, 'p) generator \<Rightarrow> int list option" where
  "gridCounts g =
     (case numberOfPointsPerIndependentVariables g of
        None \<Rightarrow> None
      | Some counts \<Rightarrow>
          if int (length counts) = numberOfIndependentVariables g then Some counts else None)"

text \<open>
  Modelled from the spec: the body of \<^verbatim>\<open>variableIndicesToListIndex\<close>, which the header
  only declares (line 289). Section 4.3 asks for a tuple of per-axis sample indices, one
  index per axis with \<open>0 \<le> i\<^sub>k < sampleCount(axis\<^sub>k)\<close>; this is the set of such tuples.
\<close>

definition validTuple :: "int list \<Rightarrow> int list \<Rightarrow> bool" where
  "validTuple counts indices = list_all2 (\<lambda>i c. 0 \<le> i \<and> i < c) indices counts"

text \<open>
  Modelled from the spec: the body of \<^verbatim>\<open>variableIndicesToListIndex\<close>, section 4.3. The mapping
  is a mixed-radix positional encoding in which axis 0 varies slowest; the stride of an
  axis is the running product of the sample counts of the axes that vary faster than it.
\<close>

definition stride :: "int list \<Rightarrow> nat \<Rightarrow> int" where
  "stride counts k = prod_list (drop (Suc k) counts)"

text \<open>
  Modelled from the spec: the body of \<^verbatim>\<open>variableIndicesToListIndex\<close>, section 4.3. The flat
  offset is the sum of \<open>index\<^sub>k * stride\<^sub>k\<close> over all axes.
\<close>

definition flatOffset :: "int list \<Rightarrow> int list \<Rightarrow> int" where
  "flatOffset counts indices =
     (\<Sum>k\<leftarrow>[0..<length counts]. indices ! k * stride counts k)"

text \<open>
  Modelled from the spec: the body of \<^verbatim>\<open>variableIndicesToListIndex\<close>, sections 4.3 and 7.
  A tuple whose length is not the number of variables, or with an index outside its axis,
  is a precondition violation; any other tuple is mapped to its flat offset.
\<close>

definition variableIndicesToListIndex ::
  "('d, 'p) generator \<Rightarrow> int list \<Rightarrow> failure + int" where
  "variableIndicesToListIndex g independentVariableIndices =
     (case gridCounts g of
        None \<Rightarrow> Inl PreconditionViolation
      | Some counts \<Rightarrow>
          if validTuple counts independentVariableIndices
          then Inr (flatOffset counts independentVariableIndices)
          else Inl PreconditionViolation)"

text \<open>
  The way back, from a flat offset to the index tuple: the digits of the offset in the
  same mixed radix. No function of the class computes it; it is the inverse used to show
  that the index mapper is a bijection.
\<close>

fun listIndexToVariableIndices :: "int list \<Rightarrow> int \<Rightarrow> int list" where
  "listIndexToVariableIndices [] x = []"
| "listIndexToVariableIndices (c # cs) x =
     (x div prod_list cs) # listIndexToVariableIndices cs (x mod prod_list cs)"

subsection \<open>The coefficient table\<close>

text \<open>The number of slots of the coefficient table, when it is allocated.\<close>

definition tableSize :: "('d, 'p) generator \<Rightarrow> int option" where
  "tableSize g =
     (case vehicleCoefficients g of None \<Rightarrow> None | Some table \<Rightarrow> Some (int (length table)))"

text \<open>
  Modelled from the spec: the allocation of the coefficient table, which the header leaves
  to derived classes (it only declares \<^verbatim>\<open>vehicleCoefficients_\<close> and \<^verbatim>\<open>numberOfCases_\<close>).
  Section 4.4: \<open>allocate()\<close> computes \<open>N\<close> as the product of all current axis sample
  counts and allocates \<open>N\<close> coefficient-vector slots, each unpopulated, discarding any
  previous contents; all axes must have been sized, with non-negative counts. With no
  axis the product is empty and the table has the single slot of section 4.4.
\<close>

definition allocate :: "('d, 'p) generator \<Rightarrow> failure + ('d, 'p) generator" where
  "allocate g =
     (case gridCounts g of
        None \<Rightarrow> Inl PreconditionViolation
      | Some counts \<Rightarrow>
          if list_all (\<lambda>c. 0 \<le> c) counts
          then Inr (g\<lparr> numberOfCases := prod_list counts,
                      vehicleCoefficients := Some (replicate (nat (prod_list counts)) None) \<rparr>)
          else Inl PreconditionViolation)"

text \<open>
  The member functions with a body in the header that change the state are the four
  setters of sample points. A run of them, stopping at the first failure:
\<close>

datatype 'd pointSetter =
    SetMachPoint int 'd
  | SetAngleOfAttackPoint int 'd
  | SetAngleOfSideslipPoint int 'd
  | SetReynoldsNumberPoint int 'd

fun callSetter :: "('d, 'p) generator \<Rightarrow> 'd pointSetter \<Rightarrow> failure + ('d, 'p) generator" where
  "callSetter g (SetMachPoint i v) = setMachPoint g i v"
| "callSetter g (SetAngleOfAttackPoint i v) = setAngleOfAttackPoint g i v"
| "callSetter g (SetAngleOfSideslipPoint i v) = setAngleOfSideslipPoint g i v"
| "callSetter g (SetReynoldsNumberPoint i v) = setReynoldsNumberPoint g i v"

fun callSetters ::
  "('d, 'p) generator \<Rightarrow> 'd pointSetter list \<Rightarrow> failure + ('d, 'p) generator" where
  "callSetters g [] = Inr g"
| "callSetters g (c # cs) = sequence (callSetter g c) (\<lambda>g'. callSetters g' cs)"

subsection \<open>Two concrete generators\<close>

text \<open>
  Two axes: Mach number on axis 0 with samples 0.5, 1.0, 2.0 and angle of attack on
  axis 1 with samples -5, 0, 5, 10. The sideslip and Reynolds roles are not used and
  keep the constructor's value.
\<close>

definition machAoaGrid :: "(real, unit) generator" where
  "machAoaGrid =
     (AerodynamicCoefficientGenerator ())
       \<lparr> numberOfIndependentVariables := 2,
         numberOfPointsPerIndependentVariables := Some [3, 4],
         dataPointsOfIndependentVariables := Some [Some [0.5, 1, 2], Some [- 5, 0, 5, 10]],
         machIndex := 0,
         angleOfAttackIndex := 1 \<rparr>"

text \<open>One axis, used for the Mach number only; the other three roles are not used.\<close>

definition machOnlyGrid :: "(real, unit) generator" where
  "machOnlyGrid =
     (AerodynamicCoefficientGenerator ())
       \<lparr> numberOfIndependentVariables := 1,
         numberOfPointsPerIndependentVariables := Some [3],
         dataPointsOfIndependentVariables := Some [Some [0.5, 1, 2]],
         machIndex := 0 \<rparr>"

text \<open>The two-axis generator after its table of 3 * 4 slots is allocated.\<close>

definition machAoaGridAllocated :: "(real, unit) generator" where
  "machAoaGridAllocated =
     machAoaGrid\<lparr> numberOfCases := 12, vehicleCoefficients := Some (replicate 12 None) \<rparr>"

text \<open>
  The same after \<open>setMachPoint 1 9\<close> and \<open>setReynoldsNumberPoint 2 7\<close>: the first call
  writes the angle-of-attack row, the second the row of axis 0.
\<close>

definition machAoaGridWritten :: "(real, unit) generator" where
  "machAoaGridWritten =
     machAoaGridAllocated\<lparr> dataPointsOfIndependentVariables :=
       Some [Some [0.5, 1, 7], Some [- 5, 9, 5, 10]] \<rparr>"

section \<open>Properties\<close>

subsection \<open>Auxiliary facts\<close>

lemmas getter_defs =
  getNumberOfIndependentVariables_def getNumberOfValuesOfIndependentVariable_def
  getNumberOfMachPoints_def getNumberOfAngleOfAttackPoints_def
  getNumberOfAngleOfSideslipPoints_def getNumberOfReynoldsNumberPoints_def
  getMachPoint_def getAngleOfAttackPoint_def getAngleOfSideslipPoint_def
  getReynoldsNumberPoint_def getIndependentVariablePoint_def

lemmas machAoaGrid_defs = machAoaGrid_def AerodynamicCoefficientGenerator_def

lemma machAoaGrid_allocated:
  "axisAllocated machAoaGrid 0" "axisAllocated machAoaGrid 1"
  by (simp_all add: axisAllocated_def machAoaGrid_defs validAxis_def)

lemma machAoaGrid_roles:
  "machIndex machAoaGrid = 0" "angleOfAttackIndex machAoaGrid = 1"
  "angleOfSideslipIndex machAoaGrid = 0" "reynoldsNumberIndex machAoaGrid = 0"
  by (simp_all add: machAoaGrid_defs)

lemma machAoaGrid_counts:
  "sampleCount machAoaGrid 0 = 3" "sampleCount machAoaGrid 1 = 4"
  by (simp_all add: sampleCount_def machAoaGrid_defs)

lemma pointInRange_allocated:
  "axisAllocated g a \<Longrightarrow> pointInRange g a i = (0 \<le> i \<and> i < sampleCount g a)"
  by (auto simp: axisAllocated_def pointInRange_def sampleCount_def validAxis_def
      split: option.splits)

lemma readPoint_inRange:
  "pointInRange g a i \<Longrightarrow> \<exists>x. readPoint g a i = Inr x"
  by (auto simp: pointInRange_def readPoint_def readAt_def split: option.splits)

lemma readPoint_outOfRange:
  "\<not> pointInRange g a i \<Longrightarrow> readPoint g a i = Inl UndefinedBehaviour"
  by (auto simp: pointInRange_def readPoint_def readAt_def split: option.splits)

lemma writePoint_inRange:
  "pointInRange g a i \<Longrightarrow> \<exists>g'. writePoint g a i v = Inr g'"
  by (auto simp: pointInRange_def writePoint_def readAt_def writeAt_def split: option.splits)

lemma writePoint_outOfRange:
  "\<not> pointInRange g a i \<Longrightarrow> writePoint g a i v = Inl UndefinedBehaviour"
  by (auto simp: pointInRange_def writePoint_def readAt_def writeAt_def split: option.splits)

lemma readAt_counts_allocated:
  "axisAllocated g a \<Longrightarrow>
   readAt (numberOfPointsPerIndependentVariables g) a = Inr (sampleCount g a)"
  by (auto simp: axisAllocated_def readAt_def sampleCount_def validAxis_def
      split: option.splits)

lemma pointInRange_rows:
  "pointInRange g a i \<Longrightarrow>
   \<exists>rows samples. dataPointsOfIndependentVariables g = Some rows \<and>
     0 \<le> a \<and> a < int (length rows) \<and> rows ! nat a = Some samples \<and>
     0 \<le> i \<and> i < int (length samples)"
  by (auto simp: pointInRange_def split: option.splits)

lemma readPoint_value:
  "dataPointsOfIndependentVariables g = Some rows \<Longrightarrow> 0 \<le> a \<Longrightarrow> a < int (length rows) \<Longrightarrow>
   rows ! nat a = Some samples \<Longrightarrow> 0 \<le> i \<Longrightarrow> i < int (length samples) \<Longrightarrow>
   readPoint g a i = Inr (samples ! nat i)"
  by (simp add: readPoint_def readAt_def)

lemma writePoint_value:
  "dataPointsOfIndependentVariables g = Some rows \<Longrightarrow> 0 \<le> a \<Longrightarrow> a < int (length rows) \<Longrightarrow>
   rows ! nat a = Some samples \<Longrightarrow> 0 \<le> i \<Longrightarrow> i < int (length samples) \<Longrightarrow>
   writePoint g a i v =
     Inr (g\<lparr>dataPointsOfIndependentVariables :=
            Some (rows[nat a := Some (samples[nat i := v])])\<rparr>)"
  by (simp add: writePoint_def readAt_def writeAt_def)

lemma readPoint_not_diagnosed: "readPoint g a i \<noteq> Inl PreconditionViolation"
  using readPoint_inRange [of g a i] readPoint_outOfRange [of g a i]
  by (cases "pointInRange g a i") auto

lemma writePoint_not_diagnosed: "writePoint g a i v \<noteq> Inl PreconditionViolation"
  using writePoint_inRange [of g a i v] writePoint_outOfRange [of g a i v]
  by (cases "pointInRange g a i") auto

lemma returned_not_diagnosed:
  "r \<noteq> Inl PreconditionViolation \<Longrightarrow>
   (case r of Inl e \<Rightarrow> Inl e | Inr v \<Rightarrow> Inr (v, g)) \<noteq> Inl PreconditionViolation"
  by (cases r) simp_all

subsection \<open>The Mach setter\<close>

text \<open>
  C1. With the Mach and angle-of-attack roles on distinct axes, \<open>setMachPoint\<close> with an index
  inside the Mach axis is claimed to write the Mach axis and to leave every other axis
  alone. On the two-axis generator, \<open>setMachPoint 1 9\<close> leaves the Mach axis as it was and
  replaces the second angle-of-attack sample, 0, by 9.
\<close>

theorem setMachPoint_writes_angleOfAttack_axis:
  "machIndex machAoaGrid \<noteq> angleOfAttackIndex machAoaGrid \<and>
   axisAllocated machAoaGrid (machIndex machAoaGrid) \<and>
   1 < sampleCount machAoaGrid (machIndex machAoaGrid) \<and>
   setMachPoint machAoaGrid 1 9 =
     Inr (machAoaGrid\<lparr>dataPointsOfIndependentVariables :=
            Some [Some [0.5, 1, 2], Some [- 5, 9, 5, 10]]\<rparr>)"
  by (simp add: machAoaGrid_defs setMachPoint_def writePoint_def readAt_def writeAt_def
      axisAllocated_def validAxis_def sampleCount_def)

text \<open>
  C2. \<open>setMachPoint i v\<close> followed by \<open>getMachPoint i\<close> is claimed to return \<open>v\<close>. On the
  two-axis generator, \<open>setMachPoint 1 9\<close> followed by \<open>getMachPoint 1\<close> returns the old
  sample 1, not 9.
\<close>

theorem setMachPoint_then_getMachPoint_stale:
  "axisAllocated machAoaGrid (machIndex machAoaGrid) \<and>
   1 < sampleCount machAoaGrid (machIndex machAoaGrid) \<and>
   sequence (setMachPoint machAoaGrid 1 9) (\<lambda>g. getMachPoint g 1) \<noteq>
   sequence (setMachPoint machAoaGrid 1 9) (\<lambda>g. Inr (9, g)) \<and>
   sequence (setMachPoint machAoaGrid 1 9) (\<lambda>g. getMachPoint g 1) =
   sequence (setMachPoint machAoaGrid 1 9) (\<lambda>g. Inr (1, g))"
  by (simp add: machAoaGrid_defs setMachPoint_def writePoint_def readAt_def writeAt_def
      axisAllocated_def validAxis_def sampleCount_def sequence_def getMachPoint_def
      readPoint_def)

text \<open>
  C8. \<open>setMachPoint\<close> and \<open>setAngleOfAttackPoint\<close> are the same function: for every state,
  index and value they produce the same outcome, the write to the row at
  \<^verbatim>\<open>angleOfAttackIndex_\<close>.
\<close>

theorem setMachPoint_eq_setAngleOfAttackPoint:
  "setMachPoint g index v = setAngleOfAttackPoint g index v \<and>
   setMachPoint g index v = writePoint g (angleOfAttackIndex g) index v"
  by (simp add: setMachPoint_def setAngleOfAttackPoint_def)

subsection \<open>The getters\<close>

text \<open>
  C4. Each role-named getter is the generic accessor at the role's axis index, for sample
  points and for sample counts. The equalities hold for every state and index, also where
  both sides are undefined.
\<close>

theorem role_getters_pass_through:
  "getMachPoint g i = getIndependentVariablePoint g (machIndex g) i \<and>
   getAngleOfAttackPoint g i = getIndependentVariablePoint g (angleOfAttackIndex g) i \<and>
   getAngleOfSideslipPoint g i = getIndependentVariablePoint g (angleOfSideslipIndex g) i \<and>
   getReynoldsNumberPoint g i = getIndependentVariablePoint g (reynoldsNumberIndex g) i \<and>
   getNumberOfMachPoints g = getNumberOfValuesOfIndependentVariable g (machIndex g) \<and>
   getNumberOfAngleOfAttackPoints g =
     getNumberOfValuesOfIndependentVariable g (angleOfAttackIndex g) \<and>
   getNumberOfAngleOfSideslipPoints g =
     getNumberOfValuesOfIndependentVariable g (angleOfSideslipIndex g) \<and>
   getNumberOfReynoldsNumberPoints g =
     getNumberOfValuesOfIndependentVariable g (reynoldsNumberIndex g)"
  by (simp add: getter_defs)

text \<open>
  C10. Every getter leaves the whole state as it was: called on an allocated axis, and
  for the point getters with an index inside the axis, it returns and the state after the
  call is the state before.
\<close>

theorem getters_leave_state_unchanged:
  "stateAfter (getNumberOfIndependentVariables g) = Some g \<and>
   (axisAllocated g a \<longrightarrow>
      stateAfter (getNumberOfValuesOfIndependentVariable g a) = Some g) \<and>
   (axisAllocated g (machIndex g) \<longrightarrow> stateAfter (getNumberOfMachPoints g) = Some g) \<and>
   (axisAllocated g (angleOfAttackIndex g) \<longrightarrow>
      stateAfter (getNumberOfAngleOfAttackPoints g) = Some g) \<and>
   (axisAllocated g (angleOfSideslipIndex g) \<longrightarrow>
      stateAfter (getNumberOfAngleOfSideslipPoints g) = Some g) \<and>
   (axisAllocated g (reynoldsNumberIndex g) \<longrightarrow>
      stateAfter (getNumberOfReynoldsNumberPoints g) = Some g) \<and>
   (axisAllocated g a \<and> 0 \<le> i \<and> i < sampleCount g a \<longrightarrow>
      stateAfter (getIndependentVariablePoint g a i) = Some g) \<and>
   (axisAllocated g (machIndex g) \<and> 0 \<le> i \<and> i < sampleCount g (machIndex g) \<longrightarrow>
      stateAfter (getMachPoint g i) = Some g) \<and>
   (axisAllocated g (angleOfAttackIndex g) \<and>
    0 \<le> i \<and> i < sampleCount g (angleOfAttackIndex g) \<longrightarrow>
      stateAfter (getAngleOfAttackPoint g i) = Some g) \<and>
   (axisAllocated g (angleOfSideslipIndex g) \<and>
    0 \<le> i \<and> i < sampleCount g (angleOfSideslipIndex g) \<longrightarrow>
      stateAfter (getAngleOfSideslipPoint g i) = Some g) \<and>
   (axisAllocated g (reynoldsNumberIndex g) \<and>
    0 \<le> i \<and> i < sampleCount g (reynoldsNumberIndex g) \<longrightarrow>
      stateAfter (getReynoldsNumberPoint g i) = Some g)"
proof -
  have count: "stateAfter (case readAt (numberOfPointsPerIndependentVariables g) k of
                   Inl e \<Rightarrow> Inl e | Inr n \<Rightarrow> Inr (n, g)) = Some g"
    if "axisAllocated g k" for k
    using readAt_counts_allocated [OF that] by (simp add: stateAfter_def)
  have point: "stateAfter (case readPoint g k i of
                   Inl e \<Rightarrow> Inl e | Inr v \<Rightarrow> Inr (v, g)) = Some g"
    if "axisAllocated g k" "0 \<le> i" "i < sampleCount g k" for k
  proof -
    from that have "pointInRange g k i" by (simp add: pointInRange_allocated)
    then obtain x where "readPoint g k i = Inr x" using readPoint_inRange by blast
    then show ?thesis by (simp add: stateAfter_def)
  qed
  show ?thesis
    unfolding getter_defs using count point by (simp add: stateAfter_def)
qed

theorem getters_leave_state_unchanged_witness:
  "stateAfter (getNumberOfIndependentVariables machAoaGrid) = Some machAoaGrid \<and>
   stateAfter (getNumberOfValuesOfIndependentVariable machAoaGrid 1) = Some machAoaGrid \<and>
   stateAfter (getNumberOfMachPoints machAoaGrid) = Some machAoaGrid \<and>
   stateAfter (getNumberOfAngleOfAttackPoints machAoaGrid) = Some machAoaGrid \<and>
   stateAfter (getNumberOfAngleOfSideslipPoints machAoaGrid) = Some machAoaGrid \<and>
   stateAfter (getNumberOfReynoldsNumberPoints machAoaGrid) = Some machAoaGrid \<and>
   stateAfter (getIndependentVariablePoint machAoaGrid 1 2) = Some machAoaGrid \<and>
   stateAfter (getMachPoint machAoaGrid 2) = Some machAoaGrid \<and>
   stateAfter (getAngleOfAttackPoint machAoaGrid 2) = Some machAoaGrid \<and>
   stateAfter (getAngleOfSideslipPoint machAoaGrid 2) = Some machAoaGrid \<and>
   stateAfter (getReynoldsNumberPoint machAoaGrid 2) = Some machAoaGrid"
  using getters_leave_state_unchanged [of machAoaGrid 1 2]
  by (simp add: machAoaGrid_allocated machAoaGrid_roles machAoaGrid_counts)

subsection \<open>Out-of-range indices\<close>

text \<open>
  C5, as claimed: an axis index or sample index outside its range triggers a
  PreconditionViolation. It does not: index 3 on the Mach axis of the two-axis generator,
  which has 3 samples, is an unchecked access outside the array.
\<close>

theorem out_of_range_read_not_diagnosed:
  "axisAllocated machAoaGrid 0 \<and> sampleCount machAoaGrid 0 = 3 \<and>
   getIndependentVariablePoint machAoaGrid 0 3 = Inl UndefinedBehaviour \<and>
   getIndependentVariablePoint machAoaGrid 0 3 \<noteq> Inl PreconditionViolation"
  by (simp add: machAoaGrid_defs getIndependentVariablePoint_def readPoint_def readAt_def
      axisAllocated_def validAxis_def sampleCount_def)

text \<open>
  C5, amended: the accessors make no check and never yield a PreconditionViolation.
  When the access stays inside the allocated arrays, \<open>getIndependentVariablePoint\<close> and
  the role-named point getter of that axis return the stored sample \<open>rows[a][i]\<close> and
  leave the state alone, and the angle-of-attack, sideslip and Reynolds setters of that
  axis return the state in which exactly that sample is replaced by the value written.
  Any other access is undefined behaviour. On an allocated axis the accesses inside the
  arrays are those with \<open>0 \<le> i < sampleCount\<close>. Of \<open>setMachPoint\<close> only the absence of
  a PreconditionViolation is stated.
\<close>

theorem accessors_unchecked:
  "(pointInRange g a i \<longrightarrow>
      (\<exists>rows samples.
         dataPointsOfIndependentVariables g = Some rows \<and> rows ! nat a = Some samples \<and>
         getIndependentVariablePoint g a i = Inr (samples ! nat i, g) \<and>
         (machIndex g = a \<longrightarrow> getMachPoint g i = Inr (samples ! nat i, g)) \<and>
         (angleOfAttackIndex g = a \<longrightarrow>
            getAngleOfAttackPoint g i = Inr (samples ! nat i, g) \<and>
            setAngleOfAttackPoint g i v =
              Inr (g\<lparr>dataPointsOfIndependentVariables :=
                     Some (rows[nat a := Some (samples[nat i := v])])\<rparr>)) \<and>
         (angleOfSideslipIndex g = a \<longrightarrow>
            getAngleOfSideslipPoint g i = Inr (samples ! nat i, g) \<and>
            setAngleOfSideslipPoint g i v =
              Inr (g\<lparr>dataPointsOfIndependentVariables :=
                     Some (rows[nat a := Some (samples[nat i := v])])\<rparr>)) \<and>
         (reynoldsNumberIndex g = a \<longrightarrow>
            getReynoldsNumberPoint g i = Inr (samples ! nat i, g) \<and>
            setReynoldsNumberPoint g i v =
              Inr (g\<lparr>dataPointsOfIndependentVariables :=
                     Some (rows[nat a := Some (samples[nat i := v])])\<rparr>)))) \<and>
   (\<not> pointInRange g a i \<longrightarrow>
      getIndependentVariablePoint g a i = Inl UndefinedBehaviour \<and>
      (machIndex g = a \<longrightarrow> getMachPoint g i = Inl UndefinedBehaviour) \<and>
      (angleOfAttackIndex g = a \<longrightarrow>
         getAngleOfAttackPoint g i = Inl UndefinedBehaviour \<and>
         setAngleOfAttackPoint g i v = Inl UndefinedBehaviour) \<and>
      (angleOfSideslipIndex g = a \<longrightarrow>
         getAngleOfSideslipPoint g i = Inl UndefinedBehaviour \<and>
         setAngleOfSideslipPoint g i v = Inl UndefinedBehaviour) \<and>
      (reynoldsNumberIndex g = a \<longrightarrow>
         getReynoldsNumberPoint g i = Inl UndefinedBehaviour \<and>
         setReynoldsNumberPoint g i v = Inl UndefinedBehaviour)) \<and>
   (getIndependentVariablePoint g a i \<noteq> Inl PreconditionViolation \<and>
    getMachPoint g i \<noteq> Inl PreconditionViolation \<and>
    getAngleOfAttackPoint g i \<noteq> Inl PreconditionViolation \<and>
    getAngleOfSideslipPoint g i \<noteq> Inl PreconditionViolation \<and>
    getReynoldsNumberPoint g i \<noteq> Inl PreconditionViolation \<and>
    setMachPoint g i v \<noteq> Inl PreconditionViolation \<and>
    setAngleOfAttackPoint g i v \<noteq> Inl PreconditionViolation \<and>
    setAngleOfSideslipPoint g i v \<noteq> Inl PreconditionViolation \<and>
    setReynoldsNumberPoint g i v \<noteq> Inl PreconditionViolation) \<and>
   (axisAllocated g a \<longrightarrow> pointInRange g a i = (0 \<le> i \<and> i < sampleCount g a))"
  (is "?inside \<and> ?outside \<and> ?never \<and> ?allocated")
proof -
  have inside: ?inside
  proof
    assume "pointInRange g a i"
    then obtain rows samples where d: "dataPointsOfIndependentVariables g = Some rows"
      and a: "0 \<le> a" "a < int (length rows)" and r: "rows ! nat a = Some samples"
      and i: "0 \<le> i" "i < int (length samples)"
      using pointInRange_rows by blast
    have rd: "readPoint g a i = Inr (samples ! nat i)"
      using d a r i by (rule readPoint_value)
    have wr: "writePoint g a i v =
        Inr (g\<lparr>dataPointsOfIndependentVariables :=
               Some (rows[nat a := Some (samples[nat i := v])])\<rparr>)"
      using d a r i by (rule writePoint_value)
    show "\<exists>rows samples.
         dataPointsOfIndependentVariables g = Some rows \<and> rows ! nat a = Some samples \<and>
         getIndependentVariablePoint g a i = Inr (samples ! nat i, g) \<and>
         (machIndex g = a \<longrightarrow> getMachPoint g i = Inr (samples ! nat i, g)) \<and>
         (angleOfAttackIndex g = a \<longrightarrow>
            getAngleOfAttackPoint g i = Inr (samples ! nat i, g) \<and>
            setAngleOfAttackPoint g i v =
              Inr (g\<lparr>dataPointsOfIndependentVariables :=
                     Some (rows[nat a := Some (samples[nat i := v])])\<rparr>)) \<and>
         (angleOfSideslipIndex g = a \<longrightarrow>
            getAngleOfSideslipPoint g i = Inr (samples ! nat i, g) \<and>
            setAngleOfSideslipPoint g i v =
              Inr (g\<lparr>dataPointsOfIndependentVariables :=
                     Some (rows[nat a := Some (samples[nat i := v])])\<rparr>)) \<and>
         (reynoldsNumberIndex g = a \<longrightarrow>
            getReynoldsNumberPoint g i = Inr (samples ! nat i, g) \<and>
            setReynoldsNumberPoint g i v =
              Inr (g\<lparr>dataPointsOfIndependentVariables :=
                     Some (rows[nat a := Some (samples[nat i := v])])\<rparr>))"
      by (intro exI [of _ rows] exI [of _ samples])
        (simp add: d r rd wr getIndependentVariablePoint_def getMachPoint_def
          getAngleOfAttackPoint_def getAngleOfSideslipPoint_def getReynoldsNumberPoint_def
          setAngleOfAttackPoint_def setAngleOfSideslipPoint_def setReynoldsNumberPoint_def)
  qed
  have outside: ?outside
    by (simp add: readPoint_outOfRange writePoint_outOfRange
        getIndependentVariablePoint_def getMachPoint_def
        getAngleOfAttackPoint_def getAngleOfSideslipPoint_def getReynoldsNumberPoint_def
        setAngleOfAttackPoint_def setAngleOfSideslipPoint_def setReynoldsNumberPoint_def)
  have never: ?never
    unfolding getIndependentVariablePoint_def getMachPoint_def
      getAngleOfAttackPoint_def getAngleOfSideslipPoint_def getReynoldsNumberPoint_def
      setMachPoint_def setAngleOfAttackPoint_def setAngleOfSideslipPoint_def
      setReynoldsNumberPoint_def
    by (intro conjI returned_not_diagnosed readPoint_not_diagnosed writePoint_not_diagnosed)
  have allocated: ?allocated
    by (simp add: pointInRange_allocated)
  from inside outside never allocated show ?thesis
    by (rule conjI [OF _ conjI [OF _ conjI]])
qed

theorem accessors_unchecked_witness:
  "pointInRange machAoaGrid 1 3 \<and> \<not> pointInRange machAoaGrid 1 4 \<and>
   getIndependentVariablePoint machAoaGrid 1 3 = Inr (10, machAoaGrid) \<and>
   getAngleOfAttackPoint machAoaGrid 3 = Inr (10, machAoaGrid) \<and>
   setAngleOfAttackPoint machAoaGrid 3 9 =
     Inr (machAoaGrid\<lparr>dataPointsOfIndependentVariables :=
            Some [Some [0.5, 1, 2], Some [- 5, 0, 5, 9]]\<rparr>) \<and>
   getIndependentVariablePoint machAoaGrid 1 4 = Inl UndefinedBehaviour \<and>
   getAngleOfAttackPoint machAoaGrid 4 = Inl UndefinedBehaviour \<and>
   setAngleOfAttackPoint machAoaGrid 4 9 = Inl UndefinedBehaviour \<and>
   setMachPoint machAoaGrid 4 9 \<noteq> Inl PreconditionViolation"
proof -
  have inside: "pointInRange machAoaGrid 1 3"
    by (simp add: pointInRange_def machAoaGrid_defs)
  have outside: "\<not> pointInRange machAoaGrid 1 4"
    by (simp add: pointInRange_def machAoaGrid_defs)
  have role: "angleOfAttackIndex machAoaGrid = 1"
    by (rule machAoaGrid_roles)
  from accessors_unchecked [of machAoaGrid 1 3 9] inside role
  obtain rows samples where d: "dataPointsOfIndependentVariables machAoaGrid = Some rows"
    and r: "rows ! nat 1 = Some samples"
    and get: "getIndependentVariablePoint machAoaGrid 1 3 = Inr (samples ! nat 3, machAoaGrid)"
    and getA: "getAngleOfAttackPoint machAoaGrid 3 = Inr (samples ! nat 3, machAoaGrid)"
    and setA: "setAngleOfAttackPoint machAoaGrid 3 9 =
        Inr (machAoaGrid\<lparr>dataPointsOfIndependentVariables :=
               Some (rows[nat 1 := Some (samples[nat 3 := 9])])\<rparr>)"
    by blast
  have rows: "rows = [Some [0.5, 1, 2], Some [- 5, 0, 5, 10]]"
    using d by (simp add: machAoaGrid_defs)
  have samples: "samples = [- 5, 0, 5, 10]"
    using r by (simp add: rows)
  have get': "getIndependentVariablePoint machAoaGrid 1 3 = Inr (10, machAoaGrid)"
    using get by (simp add: samples)
  have getA': "getAngleOfAttackPoint machAoaGrid 3 = Inr (10, machAoaGrid)"
    using getA by (simp add: samples)
  have setA': "setAngleOfAttackPoint machAoaGrid 3 9 =
     Inr (machAoaGrid\<lparr>dataPointsOfIndependentVariables :=
            Some [Some [0.5, 1, 2], Some [- 5, 0, 5, 9]]\<rparr>)"
    using setA by (simp add: rows samples)
  from accessors_unchecked [of machAoaGrid 1 4 9] outside role
  have out: "getIndependentVariablePoint machAoaGrid 1 4 = Inl UndefinedBehaviour"
    "getAngleOfAttackPoint machAoaGrid 4 = Inl UndefinedBehaviour"
    "setAngleOfAttackPoint machAoaGrid 4 9 = Inl UndefinedBehaviour"
    "setMachPoint machAoaGrid 4 9 \<noteq> Inl PreconditionViolation"
    by blast+
  from inside outside get' getA' setA' out show ?thesis
    by (intro conjI)
qed

subsection \<open>The role indices\<close>

text \<open>
  C9. After default construction the number of independent variables and the number of
  cases are 0, the coefficient table and both per-axis arrays are null, and the four role
  indices are all 0.
\<close>

theorem default_constructor_state:
  "getNumberOfIndependentVariables (AerodynamicCoefficientGenerator base) =
     Inr (0, AerodynamicCoefficientGenerator base) \<and>
   numberOfCases (AerodynamicCoefficientGenerator base) = 0 \<and>
   vehicleCoefficients (AerodynamicCoefficientGenerator base) = None \<and>
   numberOfPointsPerIndependentVariables (AerodynamicCoefficientGenerator base) = None \<and>
   dataPointsOfIndependentVariables (AerodynamicCoefficientGenerator base) = None \<and>
   machIndex (AerodynamicCoefficientGenerator base) = 0 \<and>
   angleOfAttackIndex (AerodynamicCoefficientGenerator base) = 0 \<and>
   angleOfSideslipIndex (AerodynamicCoefficientGenerator base) = 0 \<and>
   reynoldsNumberIndex (AerodynamicCoefficientGenerator base) = 0"
  by (simp add: AerodynamicCoefficientGenerator_def getNumberOfIndependentVariables_def)

text \<open>
  C6. An unused role is claimed to hold a sentinel that no valid axis index equals. On the
  one-axis generator, whose only used role is Mach, the three unused roles hold the
  constructor's value \<^verbatim>\<open>-0\<close>, which is the valid axis index 0: the Reynolds getter reads
  the Mach samples.
\<close>

theorem unused_roles_alias_axis_zero:
  "validAxis machOnlyGrid (machIndex machOnlyGrid) \<and>
   angleOfAttackIndex machOnlyGrid =
     angleOfAttackIndex (AerodynamicCoefficientGenerator () :: (real, unit) generator) \<and>
   angleOfSideslipIndex machOnlyGrid =
     angleOfSideslipIndex (AerodynamicCoefficientGenerator () :: (real, unit) generator) \<and>
   reynoldsNumberIndex machOnlyGrid =
     reynoldsNumberIndex (AerodynamicCoefficientGenerator () :: (real, unit) generator) \<and>
   validAxis machOnlyGrid (angleOfAttackIndex machOnlyGrid) \<and>
   validAxis machOnlyGrid (angleOfSideslipIndex machOnlyGrid) \<and>
   validAxis machOnlyGrid (reynoldsNumberIndex machOnlyGrid) \<and>
   getReynoldsNumberPoint machOnlyGrid 2 = getMachPoint machOnlyGrid 2 \<and>
   getMachPoint machOnlyGrid 2 = Inr (2, machOnlyGrid)"
  by (simp add: machOnlyGrid_def AerodynamicCoefficientGenerator_def validAxis_def
      getReynoldsNumberPoint_def getMachPoint_def readPoint_def readAt_def)

subsection \<open>The index mapper\<close>

lemma flatOffset_Nil: "flatOffset [] t = 0"
  by (simp add: flatOffset_def)

lemma flatOffset_Cons:
  "flatOffset (c # cs) (i # t) = i * prod_list cs + flatOffset cs t"
proof -
  have "[0..<length (c # cs)] = 0 # map Suc [0..<length cs]"
    by (simp add: upt_conv_Cons map_Suc_upt del: upt_Suc)
  then show ?thesis
    by (simp add: flatOffset_def stride_def comp_def del: upt_Suc)
qed

lemma validTuple_Nil: "validTuple [] t = (t = [])"
  by (simp add: validTuple_def)

lemma validTuple_Cons:
  "validTuple (c # cs) t = (\<exists>i r. t = i # r \<and> 0 \<le> i \<and> i < c \<and> validTuple cs r)"
  by (auto simp: validTuple_def list_all2_Cons2)

lemma flatOffset_range:
  "validTuple cs t \<Longrightarrow> 0 \<le> flatOffset cs t \<and> flatOffset cs t < prod_list cs"
proof (induction cs arbitrary: t)
  case Nil
  then show ?case by (simp add: flatOffset_Nil)
next
  case (Cons c cs)
  from Cons.prems obtain i r where t: "t = i # r" and i: "0 \<le> i" "i < c"
    and r: "validTuple cs r"
    by (auto simp: validTuple_Cons)
  from Cons.IH [OF r] have o: "0 \<le> flatOffset cs r" "flatOffset cs r < prod_list cs"
    by simp_all
  then have p: "0 < prod_list cs" by linarith
  have "i * prod_list cs + flatOffset cs r < (i + 1) * prod_list cs"
    using o by (simp add: algebra_simps)
  also have "\<dots> \<le> c * prod_list cs"
    using i p by (intro mult_right_mono) simp_all
  finally have "i * prod_list cs + flatOffset cs r < c * prod_list cs" .
  moreover have "0 \<le> i * prod_list cs" using i p by simp
  ultimately show ?case using o by (simp add: t flatOffset_Cons)
qed

lemma listIndexToVariableIndices_flatOffset:
  "validTuple cs t \<Longrightarrow> listIndexToVariableIndices cs (flatOffset cs t) = t"
proof (induction cs arbitrary: t)
  case Nil
  then show ?case by (simp add: validTuple_Nil)
next
  case (Cons c cs)
  from Cons.prems obtain i r where t: "t = i # r" and r: "validTuple cs r"
    by (auto simp: validTuple_Cons)
  from flatOffset_range [OF r]
  have o: "0 \<le> flatOffset cs r" "flatOffset cs r < prod_list cs" by simp_all
  have d: "(i * prod_list cs + flatOffset cs r) div prod_list cs = i"
    using o by (simp add: div_pos_pos_trivial)
  show ?case using o by (simp add: t flatOffset_Cons d Cons.IH [OF r])
qed

lemma prod_list_pos: "\<forall>c\<in>set cs. (1::int) \<le> c \<Longrightarrow> 0 < prod_list cs"
  by (induction cs) simp_all

lemma validTuple_listIndexToVariableIndices:
  "\<forall>c\<in>set cs. 1 \<le> c \<Longrightarrow> 0 \<le> x \<Longrightarrow> x < prod_list cs \<Longrightarrow>
   validTuple cs (listIndexToVariableIndices cs x)"
proof (induction cs arbitrary: x)
  case Nil
  then show ?case by (simp add: validTuple_Nil)
next
  case (Cons c cs)
  have p: "0 < prod_list cs" using Cons.prems(1) by (simp add: prod_list_pos)
  have "x div prod_list cs < c"
  proof (rule ccontr)
    assume "\<not> x div prod_list cs < c"
    then have ge: "c * prod_list cs \<le> (x div prod_list cs) * prod_list cs"
      using p by (simp add: mult_right_mono)
    have m: "0 \<le> x mod prod_list cs" using p by simp
    have e: "(x div prod_list cs) * prod_list cs + x mod prod_list cs = x" by simp
    have lt: "x < c * prod_list cs" using Cons.prems(3) by simp
    from ge m e lt show False by linarith
  qed
  moreover have "0 \<le> x div prod_list cs"
    using Cons.prems(2) p by (simp add: pos_imp_zdiv_nonneg_iff)
  moreover have "validTuple cs (listIndexToVariableIndices cs (x mod prod_list cs))"
    using Cons.prems(1) p by (intro Cons.IH) simp_all
  ultimately show ?case by (simp add: validTuple_Cons)
qed

lemma flatOffset_listIndexToVariableIndices:
  "flatOffset cs (listIndexToVariableIndices cs x) = (if cs = [] then 0 else x)"
proof (induction cs arbitrary: x)
  case Nil
  then show ?case by (simp add: flatOffset_Nil)
next
  case (Cons c cs)
  show ?case
  proof (cases "cs = []")
    case True
    then show ?thesis by (simp add: flatOffset_Cons flatOffset_Nil)
  next
    case False
    then show ?thesis by (simp add: flatOffset_Cons Cons.IH)
  qed
qed

text \<open>
  C3. For sample counts \<open>c\<^sub>0, \<dots>, c\<^sub>m\<^sub>-\<^sub>1\<close> of the \<open>m\<close> independent variables, each at
  least 1, \<open>variableIndicesToListIndex\<close> is a bijection between the index tuples with
  \<open>0 \<le> i\<^sub>k < c\<^sub>k\<close> and the flat offsets \<open>0 \<le> x < c\<^sub>0 * \<dots> * c\<^sub>m\<^sub>-\<^sub>1\<close>: every offset in range is
  produced by exactly one tuple, and no two tuples map to the same offset.
\<close>

theorem variableIndicesToListIndex_bijection:
  assumes counts: "gridCounts g = Some counts"
    and positive: "\<forall>c\<in>set counts. 1 \<le> c"
  shows "bij_betw (variableIndicesToListIndex g) {t. validTuple counts t}
           (Inr ` {0..<prod_list counts})"
proof (rule bij_betw_byWitness
    [where f' = "\<lambda>r. case r of Inl e \<Rightarrow> [] | Inr x \<Rightarrow> listIndexToVariableIndices counts x"])
  show "\<forall>t\<in>{t. validTuple counts t}.
          (case variableIndicesToListIndex g t of
             Inl e \<Rightarrow> [] | Inr x \<Rightarrow> listIndexToVariableIndices counts x) = t"
    by (simp add: variableIndicesToListIndex_def counts listIndexToVariableIndices_flatOffset)
  show "\<forall>r\<in>Inr ` {0..<prod_list counts}.
          variableIndicesToListIndex g
            (case r of Inl e \<Rightarrow> [] | Inr x \<Rightarrow> listIndexToVariableIndices counts x) = r"
  proof
    fix r :: "failure + int"
    assume "r \<in> Inr ` {0..<prod_list counts}"
    then obtain x where r: "r = Inr x" and x: "0 \<le> x" "x < prod_list counts" by auto
    have "validTuple counts (listIndexToVariableIndices counts x)"
      using positive x by (rule validTuple_listIndexToVariableIndices)
    moreover have "flatOffset counts (listIndexToVariableIndices counts x) = x"
      using x by (auto simp: flatOffset_listIndexToVariableIndices)
    ultimately show "variableIndicesToListIndex g
        (case r of Inl e \<Rightarrow> [] | Inr x \<Rightarrow> listIndexToVariableIndices counts x) = r"
      by (simp add: variableIndicesToListIndex_def counts r)
  qed
  show "variableIndicesToListIndex g ` {t. validTuple counts t}
          \<subseteq> Inr ` {0..<prod_list counts}"
    using flatOffset_range by (auto simp: variableIndicesToListIndex_def counts)
  show "(\<lambda>r. case r of Inl e \<Rightarrow> [] | Inr x \<Rightarrow> listIndexToVariableIndices counts x) `
          Inr ` {0..<prod_list counts} \<subseteq> {t. validTuple counts t}"
    using positive by (auto intro: validTuple_listIndexToVariableIndices)
qed

theorem variableIndicesToListIndex_bijection_witness:
  "bij_betw (variableIndicesToListIndex machAoaGrid) {t. validTuple [3, 4] t}
     (Inr ` {0..<12}) \<and>
   variableIndicesToListIndex machAoaGrid [1, 2] = Inr 6 \<and>
   variableIndicesToListIndex machAoaGrid [2, 3] = Inr 11"
proof -
  have "gridCounts machAoaGrid = Some [3, 4]"
    by (simp add: gridCounts_def machAoaGrid_defs)
  moreover have "\<forall>c\<in>set [3, 4 :: int]. 1 \<le> c" by simp
  ultimately have "bij_betw (variableIndicesToListIndex machAoaGrid) {t. validTuple [3, 4] t}
     (Inr ` {0..<prod_list [3, 4]})"
    by (rule variableIndicesToListIndex_bijection)
  moreover have "variableIndicesToListIndex machAoaGrid [1, 2] = Inr 6"
    "variableIndicesToListIndex machAoaGrid [2, 3] = Inr 11"
    by (simp_all add: variableIndicesToListIndex_def gridCounts_def machAoaGrid_defs
        validTuple_def flatOffset_def stride_def)
  ultimately show ?thesis by simp
qed


subsection \<open>The coefficient table\<close>

lemma writePoint_frame:
  "writePoint g a i v = Inr g' \<Longrightarrow>
   numberOfCases g' = numberOfCases g \<and> vehicleCoefficients g' = vehicleCoefficients g \<and>
   numberOfIndependentVariables g' = numberOfIndependentVariables g \<and>
   numberOfPointsPerIndependentVariables g' = numberOfPointsPerIndependentVariables g"
  by (auto simp: writePoint_def split: sum.splits)

lemma gridCounts_cong:
  "numberOfIndependentVariables g' = numberOfIndependentVariables g \<Longrightarrow>
   numberOfPointsPerIndependentVariables g' = numberOfPointsPerIndependentVariables g \<Longrightarrow>
   gridCounts g' = gridCounts g"
  by (simp add: gridCounts_def cong: option.case_cong)

lemma tableSize_cong:
  "vehicleCoefficients g' = vehicleCoefficients g \<Longrightarrow> tableSize g' = tableSize g"
  by (simp add: tableSize_def)

lemma callSetter_frame:
  "callSetter g c = Inr g' \<Longrightarrow>
   numberOfCases g' = numberOfCases g \<and> tableSize g' = tableSize g \<and>
   gridCounts g' = gridCounts g"
proof -
  assume "callSetter g c = Inr g'"
  then obtain a i v where "writePoint g a i v = Inr g'"
    by (cases c)
      (auto simp: setMachPoint_def setAngleOfAttackPoint_def setAngleOfSideslipPoint_def
        setReynoldsNumberPoint_def)
  from writePoint_frame [OF this] show ?thesis
    using gridCounts_cong [of g' g] tableSize_cong [of g' g] by simp
qed

lemma callSetters_frame:
  "callSetters g cs = Inr g' \<Longrightarrow>
   numberOfCases g' = numberOfCases g \<and> tableSize g' = tableSize g \<and>
   gridCounts g' = gridCounts g"
proof (induction cs arbitrary: g)
  case Nil
  then show ?case by simp
next
  case (Cons c cs)
  from Cons.prems obtain g1 where 1: "callSetter g c = Inr g1"
    and 2: "callSetters g1 cs = Inr g'"
    by (auto simp: sequence_def split: sum.splits)
  from callSetter_frame [OF 1] Cons.IH [OF 2] show ?case by simp
qed

lemma allocate_post:
  "allocate g = Inr g1 \<Longrightarrow>
   \<exists>counts. gridCounts g = Some counts \<and> gridCounts g1 = Some counts \<and>
     numberOfCases g1 = prod_list counts \<and> tableSize g1 = Some (prod_list counts)"
proof -
  assume a: "allocate g = Inr g1"
  then obtain counts where c: "gridCounts g = Some counts"
    and nn: "list_all (\<lambda>c. 0 \<le> c) counts"
    and g1: "g1 = g\<lparr> numberOfCases := prod_list counts,
                      vehicleCoefficients := Some (replicate (nat (prod_list counts)) None) \<rparr>"
    by (auto simp: allocate_def split: option.splits if_splits)
  have "0 \<le> prod_list counts"
    using nn by (induction counts) simp_all
  moreover have "gridCounts g1 = gridCounts g"
    by (rule gridCounts_cong) (simp_all add: g1)
  ultimately show ?thesis
    using c by (simp add: g1 tableSize_def)
qed

text \<open>
  C7. Allocation succeeds on a sized grid, and in every state reached from an allocation
  by calls of the header's setters the table is allocated and \<open>numberOfCases_\<close> and the
  number of slots of the table are the product of the per-axis sample counts at the time
  of the allocation (which the setters leave as they were).
\<close>

theorem numberOfCases_product_at_allocation:
  "(gridCounts g = Some counts \<and> list_all (\<lambda>c. 0 \<le> c) counts \<longrightarrow>
      (\<exists>g1. allocate g = Inr g1)) \<and>
   (allocate g = Inr g1 \<and> callSetters g1 calls = Inr g2 \<longrightarrow>
      (\<exists>counts. gridCounts g = Some counts \<and> gridCounts g2 = Some counts \<and>
         numberOfCases g2 = prod_list counts \<and> tableSize g2 = Some (prod_list counts)))"
proof (intro conjI impI)
  assume "gridCounts g = Some counts \<and> list_all (\<lambda>c. 0 \<le> c) counts"
  then show "\<exists>g1. allocate g = Inr g1" by (simp add: allocate_def)
next
  assume "allocate g = Inr g1 \<and> callSetters g1 calls = Inr g2"
  then have a: "allocate g = Inr g1" and s: "callSetters g1 calls = Inr g2" by simp_all
  from allocate_post [OF a] callSetters_frame [OF s]
  show "\<exists>counts. gridCounts g = Some counts \<and> gridCounts g2 = Some counts \<and>
         numberOfCases g2 = prod_list counts \<and> tableSize g2 = Some (prod_list counts)"
    by auto
qed

theorem numberOfCases_product_at_allocation_witness:
  "allocate machAoaGrid = Inr machAoaGridAllocated \<and>
   callSetters machAoaGridAllocated [SetMachPoint 1 9, SetReynoldsNumberPoint 2 7] =
     Inr machAoaGridWritten \<and>
   gridCounts machAoaGridWritten = Some [3, 4] \<and>
   numberOfCases machAoaGridWritten = 12 \<and> tableSize machAoaGridWritten = Some 12"
proof -
  have c: "gridCounts machAoaGrid = Some [3, 4]"
    by (simp add: gridCounts_def machAoaGrid_defs)
  have a: "allocate machAoaGrid = Inr machAoaGridAllocated"
    by (simp add: allocate_def c machAoaGridAllocated_def)
  have s: "callSetters machAoaGridAllocated [SetMachPoint 1 9, SetReynoldsNumberPoint 2 7] =
     Inr machAoaGridWritten"
    by (simp add: sequence_def setMachPoint_def setReynoldsNumberPoint_def writePoint_def
        readAt_def writeAt_def machAoaGridWritten_def machAoaGridAllocated_def machAoaGrid_defs)
  from numberOfCases_product_at_allocation [of machAoaGrid "[3, 4]" machAoaGridAllocated
      "[SetMachPoint 1 9, SetReynoldsNumberPoint 2 7]" machAoaGridWritten] a s c
  show ?thesis by auto
qed


end
